theory Spec2Isabelle
  imports Main
begin

section \<open>Gitto: a shallow embedding of \<^verbatim>\<open>gitto.py\<close>\<close>

text \<open>
  The class \<^verbatim>\<open>VCS\<close> works on three resources of the control directory
  \<^verbatim>\<open>.gitto\<close> (the object directory, the index file, the HEAD file) and on the
  text files of the working tree. The embedding keeps them in one record that every
  operation reads and returns updated. What the source prints is appended to the
  field \<open>printed\<close>; what it raises is a value of the type \<open>error\<close>.
\<close>

subsection \<open>Path strings\<close>

text \<open>
  A path string is kept as the list of its pieces between the separators \<^verbatim>\<open>/\<close>:
  \<^verbatim>\<open>"sub/a.txt"\<close> is \<open>[''sub'', ''a.txt'']\<close>, \<^verbatim>\<open>"."\<close> is \<open>[''.'']\<close>, and an
  absolute path starts with an empty piece. Equal strings are equal lists, so the
  source's comparisons of path strings are comparisons of these lists.
  The absolute paths \<^verbatim>\<open>self.directory\<close> and \<^verbatim>\<open>os.getcwd()\<close> are kept
  normalised, as the lists of their directory names from the root.
\<close>

type_synonym path = "string list"

definition isabs :: "path \<Rightarrow> bool" where
  "isabs p = (case p of [] \<Rightarrow> False | c # cs \<Rightarrow> c = [] \<and> cs \<noteq> [])"

text \<open>\<^verbatim>\<open>os.path.normpath\<close> on an absolute path: empty pieces and \<^verbatim>\<open>.\<close> are dropped,
  \<^verbatim>\<open>..\<close> removes the directory before it (and is dropped at the root).\<close>

fun normpath_step :: "path \<Rightarrow> string \<Rightarrow> path" where
  "normpath_step stack c =
     (if c = [] \<or> c = ''.'' then stack
      else if c = ''..'' then butlast stack
      else stack @ [c])"

definition normpath :: "path \<Rightarrow> path" where
  "normpath p = foldl normpath_step [] p"

text \<open>\<^verbatim>\<open>os.path.abspath(os.path.join(base, p))\<close> for a normalised absolute \<open>base\<close>.\<close>

definition abspath :: "path \<Rightarrow> path \<Rightarrow> path" where
  "abspath base p = normpath (if isabs p then p else base @ p)"

fun commonprefix :: "path \<Rightarrow> path \<Rightarrow> nat" where
  "commonprefix (x # xs) (y # ys) = (if x = y then Suc (commonprefix xs ys) else 0)"
| "commonprefix _ _ = 0"

text \<open>The body of \<^verbatim>\<open>os.path.relpath\<close>, from the two lists of directory names.\<close>

definition rel_list :: "path \<Rightarrow> path \<Rightarrow> path" where
  "rel_list start_list path_list =
     (let i = commonprefix start_list path_list;
          r = replicate (length start_list - i) ''..'' @ drop i path_list
      in if r = [] then [''.''] else r)"

text \<open>A list of directory names as \<^verbatim>\<open>os.path.abspath\<close> returns it: no empty piece, no
  \<^verbatim>\<open>.\<close>, no \<^verbatim>\<open>..\<close>.\<close>

definition normalised :: "path \<Rightarrow> bool" where
  "normalised p = list_all (\<lambda>c. c \<noteq> [] \<and> c \<noteq> ''.'' \<and> c \<noteq> ''..'') p"

subsection \<open>The repository and the libraries\<close>

datatype msg =
    DidNotMatch path
  | AlreadyAdded path
  | AddedToStaging path
  | NotInStagingArea path
  | Unstaged path
  | NoCommitFound
  | NoChangesToRestore path
  | NotBeingTracked path
  | Restored path
  | NothingToCommitClean
  | ChangesToBeCommitted
  | ChangesNotStaged
  | UntrackedFiles
  | Green path
  | Red path
  | Blank
  | NoChangesToCommit
  | CommitCreated string
  | LogEntry string string string
  | NoCommitsYet
  | CommitNotFound
  | FirstCommit
  | ChangesFromLast
  | FileHeader path
  | ParentCommitNotFound
  | DiffPlus string
  | DiffMinus string
  | DiffContext string
  | ParentFileContentNotFound
  | NewFileInCommit

datatype error =
    FileNotFoundError path
  | ObjectNotFoundError string
  | KeyError path
  | TypeError
  | NameError
  | JSONError string
  | ValueError_CommitData string
  | ValueError_IsoFormat string

text \<open>The serialised commit: the dictionary that \<^verbatim>\<open>commit\<close> dumps. A dictionary is
  an association list with distinct keys, in insertion order.\<close>

record commit_json =
  timestamp :: string
  message :: string
  files :: "(path \<times> string) list"
  parent :: "string option"

text \<open>
  The libraries the source calls are parameters of the embedding:
  \<^item> \<open>sha1_hexdigest\<close> is \<^verbatim>\<open>hashlib.sha1(content.encode("utf-8")).hexdigest()\<close>;
  \<^item> \<open>json_dumps\<close> is \<^verbatim>\<open>json.dumps\<close> on the commit dictionary;
  \<^item> \<open>json_loads\<close> is \<^verbatim>\<open>json.loads\<close> followed by the accesses to the keys of the
    commit dictionary: \<open>None\<close> stands for the exception that a text which is not a
    serialised commit raises there;
  \<^item> \<open>strftime\<close> is \<^verbatim>\<open>datetime.fromisoformat(t).strftime(...)\<close>, \<open>None\<close> when
    \<^verbatim>\<open>fromisoformat\<close> raises;
  \<^item> \<open>unified_diff\<close> is \<^verbatim>\<open>difflib.unified_diff\<close> on the \<^verbatim>\<open>splitlines()\<close> of two texts.
\<close>

record env =
  sha1_hexdigest :: "string \<Rightarrow> string"
  json_dumps :: "commit_json \<Rightarrow> string"
  json_loads :: "string \<Rightarrow> commit_json option"
  strftime :: "string \<Rightarrow> string option"
  unified_diff :: "string \<Rightarrow> string \<Rightarrow> string list"

text \<open>
  The state of an initialised repository. \<open>worktree\<close> holds the text files outside the
  control directory, by absolute path, in the order \<^verbatim>\<open>os.walk\<close> meets them;
  \<open>objects\<close> is the object directory, from file name to text; \<open>index_file\<close> is the
  dictionary stored in the index file; \<open>head_file\<close> is the text of the HEAD file.
  The three resources of the control directory exist, as \<^verbatim>\<open>init\<close> creates them and no
  operation removes them; a file of the working tree may be missing, and reading it
  then raises. A function that only reads returns \<open>error + 'a\<close>; one that writes or
  prints returns the exception, if any, together with the state reached, since what
  was written before an exception stays written.
\<close>

record state =
  directory :: path
  cwd :: path
  worktree :: "(path \<times> string) list"
  objects :: "string \<rightharpoonup> string"
  index_file :: "(path \<times> string) list"
  head_file :: string
  printed :: "msg list"

type_synonym outcome = "error option \<times> state"

definition print :: "msg \<Rightarrow> state \<Rightarrow> state" where
  "print m s = s\<lparr>printed := printed s @ [m]\<rparr>"

text \<open>\<^verbatim>\<open>os.path.relpath(os.path.join(self.directory, p))\<close>: relative to the working
  directory of the process.\<close>

definition relpath_cwd :: "state \<Rightarrow> path \<Rightarrow> path" where
  "relpath_cwd s p = rel_list (cwd s) (abspath (directory s) p)"

text \<open>\<^verbatim>\<open>os.path.relpath(p, self.directory)\<close>: relative to the repository.\<close>

definition relpath_dir :: "state \<Rightarrow> path \<Rightarrow> path" where
  "relpath_dir s p = rel_list (directory s) (abspath (cwd s) p)"

text \<open>\<^verbatim>\<open>open(p, "r").read()\<close> and \<^verbatim>\<open>open(p, "w").write(text)\<close> on the working tree.\<close>

definition read_file :: "state \<Rightarrow> path \<Rightarrow> error + string" where
  "read_file s p =
     (case map_of (worktree s) (abspath (cwd s) p) of
        None \<Rightarrow> Inl (FileNotFoundError p)
      | Some text \<Rightarrow> Inr text)"

text \<open>Assignment to a key of a dictionary, and \<^verbatim>\<open>del\<close>.\<close>

fun dict_set :: "'k \<Rightarrow> 'v \<Rightarrow> ('k \<times> 'v) list \<Rightarrow> ('k \<times> 'v) list" where
  "dict_set k v [] = [(k, v)]"
| "dict_set k v (e # es) = (if fst e = k then (k, v) # es else e # dict_set k v es)"

definition dict_del :: "'k \<Rightarrow> ('k \<times> 'v) list \<Rightarrow> ('k \<times> 'v) list" where
  "dict_del k d = filter (\<lambda>e. fst e \<noteq> k) d"

definition write_file :: "path \<Rightarrow> string \<Rightarrow> state \<Rightarrow> state" where
  "write_file p text s = s\<lparr>worktree := dict_set (abspath (cwd s) p) text (worktree s)\<rparr>"

text \<open>A Python set, in the order its elements were added.\<close>

definition set_add :: "'a \<Rightarrow> 'a list \<Rightarrow> 'a list" where
  "set_add x xs = (if x \<in> set xs then xs else xs @ [x])"

subsection \<open>Reading the repository\<close>

definition generate_hash :: "env \<Rightarrow> string \<Rightarrow> string" where
  "generate_hash e content = sha1_hexdigest e content"

text \<open>\<^verbatim>\<open>str.strip()\<close>: the white space of Python among the first 256 code points.\<close>

definition isspace :: "char \<Rightarrow> bool" where
  "isspace c = (of_char c \<in> set [9, 10, 11, 12, 13, 28, 29, 30, 31, 32, 133, 160 :: nat])"

definition strip :: "string \<Rightarrow> string" where
  "strip t = rev (dropWhile isspace (rev (dropWhile isspace t)))"

definition get_current_head :: "state \<Rightarrow> string option" where
  "get_current_head s = (let head = strip (head_file s) in if head = [] then None else Some head)"

text \<open>\<^verbatim>\<open>os.path.join(self.objects_path, commit_hash)\<close> raises TypeError when
  \<^verbatim>\<open>commit_hash\<close> is \<^verbatim>\<open>None\<close>.\<close>

definition get_commit_data :: "state \<Rightarrow> string option \<Rightarrow> error + string option" where
  "get_commit_data s commit_hash =
     (case commit_hash of
        None \<Rightarrow> Inl TypeError
      | Some h \<Rightarrow> Inr (objects s h))"

definition get_file_content :: "state \<Rightarrow> string \<Rightarrow> error + string" where
  "get_file_content s file_hash =
     (case objects s file_hash of
        None \<Rightarrow> Inl (ObjectNotFoundError file_hash)
      | Some text \<Rightarrow> Inr text)"

definition get_staged_files :: "state \<Rightarrow> path list" where
  "get_staged_files s = foldl (\<lambda>staged k. set_add (relpath_cwd s k) staged) [] (map fst (index_file s))"

text \<open>The two loops of \<^verbatim>\<open>get_tracked_files\<close>: over the files of the latest commit,
  then over the staged files.\<close>

fun tracked_loop :: "env \<Rightarrow> state \<Rightarrow> path list \<Rightarrow> (path \<times> string) list
    \<Rightarrow> path list \<times> path list \<Rightarrow> error + path list \<times> path list" where
  "tracked_loop e s staged_files [] acc = Inr acc"
| "tracked_loop e s staged_files ((file, committed) # rest) (tracked_files, with_changes) =
     (let file_path = relpath_cwd s file in
      if file_path \<in> set staged_files
      then tracked_loop e s staged_files rest (tracked_files, with_changes)
      else (case read_file s file_path of
              Inl err \<Rightarrow> Inl err
            | Inr content \<Rightarrow>
                tracked_loop e s staged_files rest
                  (set_add file_path tracked_files,
                   if generate_hash e content \<noteq> committed
                   then set_add file_path with_changes else with_changes)))"

fun staged_loop :: "env \<Rightarrow> state \<Rightarrow> path list \<Rightarrow> path list \<Rightarrow> path list
    \<Rightarrow> error + path list" where
  "staged_loop e s tracked_files [] with_changes = Inr with_changes"
| "staged_loop e s tracked_files (file_path # rest) with_changes =
     (if file_path \<in> set tracked_files
      then staged_loop e s tracked_files rest with_changes
      else (case read_file s file_path of
              Inl err \<Rightarrow> Inl err
            | Inr content \<Rightarrow>
                (case map_of (index_file s) (relpath_dir s file_path) of
                   None \<Rightarrow> Inl (KeyError (relpath_dir s file_path))
                 | Some staged \<Rightarrow>
                     staged_loop e s tracked_files rest
                       (if generate_hash e content \<noteq> staged
                        then set_add file_path with_changes else with_changes))))"

definition committed_files :: "env \<Rightarrow> state \<Rightarrow> path list
    \<Rightarrow> error + path list \<times> path list" where
  "committed_files e s staged_files =
     (case get_current_head s of
        None \<Rightarrow> Inr ([], [])
      | Some head \<Rightarrow>
          (case get_commit_data s (Some head) of
             Inl err \<Rightarrow> Inl err
           | Inr None \<Rightarrow> Inr ([], [])
           | Inr (Some commit_text) \<Rightarrow>
               if commit_text = [] then Inr ([], [])
               else (case json_loads e commit_text of
                       None \<Rightarrow> Inl (JSONError commit_text)
                     | Some c \<Rightarrow> tracked_loop e s staged_files (files c) ([], []))))"

definition get_tracked_files :: "env \<Rightarrow> state \<Rightarrow> path list
    \<Rightarrow> error + path list \<times> path list" where
  "get_tracked_files e s staged_files =
     (case committed_files e s staged_files of
        Inl err \<Rightarrow> Inl err
      | Inr (tracked_files, with_changes) \<Rightarrow>
          (case staged_loop e s tracked_files staged_files with_changes of
             Inl err \<Rightarrow> Inl err
           | Inr with_changes' \<Rightarrow> Inr (tracked_files, with_changes')))"

text \<open>\<^verbatim>\<open>os.walk(self.directory)\<close>, flattened: the pairs of a directory and the name of a
  file in it, for the files below the repository directory.\<close>

definition os_walk :: "state \<Rightarrow> (path \<times> string) list" where
  "os_walk s =
     map (\<lambda>p. (butlast p, last p))
       (filter (\<lambda>p. length (directory s) < length p \<and> take (length (directory s)) p = directory s)
          (map fst (worktree s)))"

text \<open>The test \<^verbatim>\<open>sub in text\<close> on strings.\<close>

fun str_contains :: "string \<Rightarrow> string \<Rightarrow> bool" where
  "str_contains sub [] = (sub = [])"
| "str_contains sub (c # cs) = (take (length sub) (c # cs) = sub \<or> str_contains sub cs)"

fun untracked_loop :: "env \<Rightarrow> state \<Rightarrow> path list \<Rightarrow> path list \<Rightarrow> (path \<times> string) list
    \<Rightarrow> path list \<Rightarrow> error + path list" where
  "untracked_loop e s staged_files tracked_files [] untracked_files = Inr untracked_files"
| "untracked_loop e s staged_files tracked_files ((root, file) # rest) untracked_files =
     (if list_ex (str_contains ''.gitto'') root
      then untracked_loop e s staged_files tracked_files rest untracked_files
      else if file = ''gitto.py''
      then untracked_loop e s staged_files tracked_files rest untracked_files
      else (let file_path = rel_list (cwd s) (abspath (cwd s) ([] # root @ [file])) in
            if file_path \<notin> set staged_files \<and> file_path \<notin> set tracked_files
            then (case read_file s [file] of
                    Inl err \<Rightarrow> Inl err
                  | Inr content \<Rightarrow>
                      untracked_loop e s staged_files tracked_files rest
                        (if objects s (generate_hash e content) = None
                         then set_add (relpath_dir s file_path) untracked_files
                         else untracked_files))
            else untracked_loop e s staged_files tracked_files rest untracked_files))"

definition get_untracked_files :: "env \<Rightarrow> state \<Rightarrow> path list \<Rightarrow> path list
    \<Rightarrow> error + path list" where
  "get_untracked_files e s staged_files tracked_files =
     untracked_loop e s staged_files tracked_files (os_walk s) []"

subsection \<open>Staging\<close>

definition append_to_staging_area :: "path \<Rightarrow> string \<Rightarrow> state \<Rightarrow> state" where
  "append_to_staging_area file_path file_hash s =
     s\<lparr>index_file := dict_set (relpath_dir s file_path) file_hash (index_file s)\<rparr>"

definition add_file :: "env \<Rightarrow> path \<Rightarrow> state \<Rightarrow> outcome" where
  "add_file e file_path s =
     (case read_file s file_path of
        Inl err \<Rightarrow> (Some err, s)
      | Inr file_data \<Rightarrow>
          (let file_hash = generate_hash e file_data;
               s1 = s\<lparr>objects := (objects s)(file_hash \<mapsto> file_data)\<rparr>;
               s2 = append_to_staging_area file_path file_hash s1
           in (None, print (AddedToStaging file_path) s2)))"

text \<open>The first loop of \<^verbatim>\<open>add\<close>: \<open>Inl path\<close> is the return at a path that matches no
  file, \<open>Inr addAll\<close> the end of the loop.\<close>

fun add_scan :: "path list \<Rightarrow> path list \<Rightarrow> path list \<Rightarrow> path list \<Rightarrow> bool \<Rightarrow> path + bool" where
  "add_scan staged_files tracked_files untracked_files [] addAll = Inr addAll"
| "add_scan staged_files tracked_files untracked_files (path # rest) addAll =
     (if path = [''.'']
      then add_scan staged_files tracked_files untracked_files rest True
      else if path \<notin> set staged_files \<and> path \<notin> set tracked_files \<and> path \<notin> set untracked_files
      then Inl path
      else add_scan staged_files tracked_files untracked_files rest addAll)"

fun add_files :: "env \<Rightarrow> path list \<Rightarrow> state \<Rightarrow> outcome" where
  "add_files e [] s = (None, s)"
| "add_files e (path # rest) s =
     (case add_file e path s of
        (Some err, s') \<Rightarrow> (Some err, s')
      | (None, s') \<Rightarrow> add_files e rest s')"

fun add_listed :: "env \<Rightarrow> path list \<Rightarrow> path list \<Rightarrow> path list \<Rightarrow> state \<Rightarrow> outcome" where
  "add_listed e with_changes untracked_files [] s = (None, s)"
| "add_listed e with_changes untracked_files (path # rest) s =
     (if path \<in> set with_changes \<or> path \<in> set untracked_files
      then (case add_file e path s of
              (Some err, s') \<Rightarrow> (Some err, s')
            | (None, s') \<Rightarrow> add_listed e with_changes untracked_files rest s')
      else add_listed e with_changes untracked_files rest (print (AlreadyAdded path) s))"

definition add :: "env \<Rightarrow> path list \<Rightarrow> state \<Rightarrow> outcome" where
  "add e paths s =
     (let staged_files = get_staged_files s in
      case get_tracked_files e s staged_files of
        Inl err \<Rightarrow> (Some err, s)
      | Inr (tracked_files, with_changes) \<Rightarrow>
          (case get_untracked_files e s staged_files tracked_files of
             Inl err \<Rightarrow> (Some err, s)
           | Inr untracked_files \<Rightarrow>
               (case add_scan staged_files tracked_files untracked_files paths False of
                  Inl path \<Rightarrow> (None, print (DidNotMatch path) s)
                | Inr addAll \<Rightarrow>
                    if addAll
                    then (case add_files e with_changes s of
                            (Some err, s') \<Rightarrow> (Some err, s')
                          | (None, s') \<Rightarrow> add_files e untracked_files s')
                    else add_listed e with_changes untracked_files paths s)))"

definition unstage_file :: "path \<Rightarrow> state \<Rightarrow> state" where
  "unstage_file file_path s =
     (let rel_path = relpath_dir s file_path in
      if rel_path \<in> set (map fst (index_file s))
      then print (Unstaged file_path) (s\<lparr>index_file := dict_del rel_path (index_file s)\<rparr>)
      else print (NotInStagingArea file_path) s)"



subsection \<open>Restoring\<close>

fun restore_file_loop :: "path \<Rightarrow> (path \<times> string) list \<Rightarrow> state \<Rightarrow> outcome" where
  "restore_file_loop path [] s = (None, s)"
| "restore_file_loop path ((file, file_hash) # rest) s =
     (let file_path = relpath_cwd s file in
      if path = file_path
      then (case get_file_content s file_hash of
              Inl err \<Rightarrow> (Some err, s)
            | Inr committed_file_content \<Rightarrow>
                (None, print (Restored path) (write_file file_path committed_file_content s)))
      else restore_file_loop path rest s)"

definition restore_file :: "env \<Rightarrow> path \<Rightarrow> state \<Rightarrow> outcome" where
  "restore_file e path s =
     (let head = get_current_head s in
      case get_commit_data s head of
        Inl err \<Rightarrow> (Some err, s)
      | Inr None \<Rightarrow> (None, s)
      | Inr (Some commit_text) \<Rightarrow>
          if commit_text = [] then (None, s)
          else (case json_loads e commit_text of
                  None \<Rightarrow> (Some (JSONError commit_text), s)
                | Some c \<Rightarrow> restore_file_loop path (files c) s))"

fun restore_loop :: "env \<Rightarrow> path list \<Rightarrow> path list \<Rightarrow> path list \<Rightarrow> state \<Rightarrow> outcome" where
  "restore_loop e tracked_files with_changes [] s = (None, s)"
| "restore_loop e tracked_files with_changes (path # rest) s =
     (if path \<in> set with_changes
      then (case restore_file e path s of
              (Some err, s') \<Rightarrow> (Some err, s')
            | (None, s') \<Rightarrow> restore_loop e tracked_files with_changes rest s')
      else if path \<in> set tracked_files
      then restore_loop e tracked_files with_changes rest (print (NoChangesToRestore path) s)
      else restore_loop e tracked_files with_changes rest (print (NotBeingTracked path) s))"

definition restore :: "env \<Rightarrow> path list \<Rightarrow> state \<Rightarrow> outcome" where
  "restore e paths s =
     (let s1 = (if get_current_head s = None then print NoCommitFound s else s);
          staged_files = get_staged_files s1
      in case get_tracked_files e s1 staged_files of
           Inl err \<Rightarrow> (Some err, s1)
         | Inr (tracked_files, with_changes) \<Rightarrow>
             restore_loop e tracked_files with_changes paths s1)"

subsection \<open>Status\<close>


subsection \<open>Commits\<close>

definition update_head :: "string \<Rightarrow> state \<Rightarrow> state" where
  "update_head commit_hash s = s\<lparr>head_file := commit_hash\<rparr>"

text \<open>In \<^verbatim>\<open>commit\<close> the test \<^verbatim>\<open>if not f\<close> is on the file object \<^verbatim>\<open>f\<close> that the index
  was read from, and a file object is true. The time \<^verbatim>\<open>datetime.now().isoformat()\<close>
  is the argument \<open>now\<close>.\<close>

definition file_object_truth :: bool where
  "file_object_truth = True"

definition commit :: "env \<Rightarrow> string \<Rightarrow> string \<Rightarrow> state \<Rightarrow> outcome" where
  "commit e now msg s =
     (let index = index_file s in
      if \<not> file_object_truth then (None, print NoChangesToCommit s)
      else (let parent_commit = get_current_head s;
                c = \<lparr>timestamp = now, message = msg, files = index, parent = parent_commit\<rparr>;
                commit_hash = generate_hash e (json_dumps e c);
                s1 = s\<lparr>objects := (objects s)(commit_hash \<mapsto> json_dumps e c)\<rparr>;
                s2 = update_head commit_hash s1;
                s3 = s2\<lparr>index_file := []\<rparr>
            in (None, print (CommitCreated commit_hash) s3)))"

text \<open>The loop of \<^verbatim>\<open>log\<close> runs while \<^verbatim>\<open>head\<close> is true: neither \<^verbatim>\<open>None\<close> nor the
  empty string. A history whose parent pointers form a cycle keeps it running, and
  the result is then \<open>None\<close>.\<close>

partial_function (option) log_loop :: "env \<Rightarrow> string option \<Rightarrow> state \<Rightarrow> outcome option" where
  "log_loop e head s =
     (case head of
        None \<Rightarrow> Some (None, s)
      | Some h \<Rightarrow>
          if h = [] then Some (None, s)
          else (case get_commit_data s head of
                  Inl err \<Rightarrow> Some (Some err, s)
                | Inr None \<Rightarrow> Some (Some (ValueError_CommitData h), s)
                | Inr (Some commit_text) \<Rightarrow>
                    (case json_loads e commit_text of
                       None \<Rightarrow> Some (Some (JSONError commit_text), s)
                     | Some c \<Rightarrow>
                         (case strftime e (timestamp c) of
                            None \<Rightarrow> Some (Some (ValueError_IsoFormat (timestamp c)), s)
                          | Some formatted_date \<Rightarrow>
                              log_loop e (parent c)
                                (print (LogEntry h formatted_date (message c)) s)))))"


subsection \<open>Differences\<close>




subsection \<open>The command line\<close>



subsection \<open>What the specification expects of the report of differences\<close>



subsection \<open>What the specification expects of the history\<close>




subsection \<open>A small repository for the examples\<close>

text \<open>An instance of the libraries that is simple enough to evaluate, and the history
  of the scenario: commit \<open>A\<close> has the files \<open>{x: d1}\<close>, its child \<open>B\<close> has
  \<open>{x: d2, y: d3}\<close>.\<close>

definition commit_A :: commit_json where
  "commit_A = \<lparr>timestamp = ''2024-01-01T10:00:00'', message = ''first'',
     files = [([''x''], ''sha:one'')], parent = None\<rparr>"

definition commit_B :: commit_json where
  "commit_B = \<lparr>timestamp = ''2024-01-02T10:00:00'', message = ''second'',
     files = [([''x''], ''sha:two''), ([''y''], ''sha:three'')], parent = Some ''sha:{first}''\<rparr>"

definition env0 :: env where
  "env0 = \<lparr>sha1_hexdigest = (\<lambda>content. ''sha:'' @ content),
     json_dumps = (\<lambda>c. ''{'' @ message c @ ''}''),
     json_loads = map_of [(''{first}'', commit_A), (''{second}'', commit_B)],
     strftime = (\<lambda>t. Some t),
     unified_diff = (\<lambda>old new. [''-'' @ old, ''+'' @ new])\<rparr>"

definition repo_empty :: state where
  "repo_empty = \<lparr>directory = [''repo''], cwd = [''repo''], worktree = [],
     objects = Map.empty, index_file = [], head_file = [], printed = []\<rparr>"

definition repo_AB :: state where
  "repo_AB = \<lparr>directory = [''repo''], cwd = [''repo''],
     worktree = [([''repo'', ''x''], ''two''), ([''repo'', ''y''], ''three'')],
     objects = map_of [(''sha:one'', ''one''), (''sha:two'', ''two''), (''sha:three'', ''three''),
       (''sha:{first}'', ''{first}''), (''sha:{second}'', ''{second}'')],
     index_file = [], head_file = ''sha:{second}'', printed = []\<rparr>"

text \<open>Two new files with the same text; a staged file edited after it was staged, in
  a repository with no commit; a file in a subdirectory.\<close>

definition repo_fresh :: state where
  "repo_fresh = repo_empty\<lparr>worktree := [([''repo'', ''a.txt''], ''v1''), ([''repo'', ''b.txt''], ''v1'')]\<rparr>"

definition repo_drift :: state where
  "repo_drift = repo_empty\<lparr>worktree := [([''repo'', ''a.txt''], ''v2'')],
     index_file := [([''a.txt''], ''sha:v1'')]\<rparr>"

definition repo_sub :: state where
  "repo_sub = repo_empty\<lparr>worktree := [([''repo'', ''sub'', ''b.txt''], ''new'')]\<rparr>"

text \<open>A file in a subdirectory beside a file of the same name at the top, whose text
  was stored before.\<close>

definition repo_sub_twin :: state where
  "repo_sub_twin = repo_empty\<lparr>
     worktree := [([''repo'', ''b.txt''], ''old''), ([''repo'', ''sub'', ''b.txt''], ''new'')],
     objects := [''sha:old'' \<mapsto> ''old'']\<rparr>"

text \<open>The history \<open>A\<close>, \<open>B\<close> with one file of each kind: \<open>x\<close> as committed, \<open>y\<close>
  edited, \<open>z\<close> new, and \<open>w\<close> staged and edited since.\<close>

definition repo_mixed :: state where
  "repo_mixed = repo_AB\<lparr>
     worktree := [([''repo'', ''x''], ''two''), ([''repo'', ''y''], ''THREE''),
       ([''repo'', ''z''], ''zed''), ([''repo'', ''w''], ''w2'')],
     objects := (objects repo_AB)(''sha:w1'' \<mapsto> ''w1''),
     index_file := [([''w''], ''sha:w1'')]\<rparr>"

text \<open>A file that is neither staged nor committed, with a text stored before.\<close>

definition repo_known :: state where
  "repo_known = repo_empty\<lparr>worktree := [([''repo'', ''b.txt''], ''old'')],
     objects := [''sha:old'' \<mapsto> ''old'']\<rparr>"

text \<open>The history \<open>A\<close>, \<open>B\<close> after the object of \<open>A\<close> was lost.\<close>

definition repo_broken :: state where
  "repo_broken = repo_AB\<lparr>objects := (objects repo_AB)(''sha:{first}'' := None)\<rparr>"

section \<open>Properties\<close>

subsection \<open>Paths\<close>





lemma foldl_normpath_clean: "normalised p \<Longrightarrow> foldl normpath_step stk p = stk @ p"
  by (induction p arbitrary: stk) (auto simp: normalised_def)





lemma commonprefix_append: "commonprefix d (d @ p) = length d"
  by (induction d) auto

text \<open>At the top of the repository, a normalised relative path is its own key in the
  index.\<close>

lemma relpath_dir_at_top:
  assumes "cwd s = directory s" and "normalised (directory s)" and "normalised p" and "p \<noteq> []"
  shows "relpath_dir s p = p"
proof -
  have "\<not> isabs p"
    using assms(3,4) by (cases p) (auto simp: isabs_def normalised_def)
  then have "abspath (directory s) p = directory s @ p"
    using assms(2,3) foldl_normpath_clean [of "directory s @ p" "[]"]
    by (simp add: abspath_def normpath_def normalised_def)
  then show ?thesis
    using assms(1,4) by (simp add: relpath_dir_def rel_list_def commonprefix_append)
qed

subsection \<open>Dictionaries\<close>

lemma dict_set_keys: "fst ` set (dict_set k v d) = insert k (fst ` set d)"
  by (induction d) auto

lemma dict_del_keys: "fst ` set (dict_del k d) = fst ` set d - {k}"
  by (auto simp: dict_del_def)

subsection \<open>The index\<close>

text \<open>
  Claim C7. Staging a path \<open>p\<close> with a digest \<open>d\<close> and then unstaging \<open>p\<close> leaves
  the key of \<open>p\<close> (its path relative to the repository) absent from the stored index,
  and the message says that it was unstaged. In any state, after \<^verbatim>\<open>unstage_file\<close> the
  key is absent, and the message printed tells whether it was present:
  \<^verbatim>\<open>'p' unstaged\<close> when it was, \<^verbatim>\<open>'p' is not in the staging area\<close> when it was not.
  At the top of the repository the key of a normalised relative path is the path.
\<close>

theorem stage_then_unstage:
  "relpath_dir s p \<notin> fst ` set (index_file (unstage_file p (append_to_staging_area p d s)))
   \<and> printed (unstage_file p (append_to_staging_area p d s)) = printed s @ [Unstaged p]
   \<and> relpath_dir s p \<notin> fst ` set (index_file (unstage_file p s))
   \<and> printed (unstage_file p s)
       = printed s @ [if relpath_dir s p \<in> fst ` set (index_file s)
                      then Unstaged p else NotInStagingArea p]
   \<and> (cwd s = directory s \<and> normalised (directory s) \<and> normalised p \<and> p \<noteq> []
       \<longrightarrow> p \<notin> fst ` set (index_file (unstage_file p (append_to_staging_area p d s))))"
proof -
  have key: "relpath_dir s p
      \<notin> fst ` set (index_file (unstage_file p (append_to_staging_area p d s)))"
    by (simp add: unstage_file_def Let_def print_def dict_del_keys dict_set_keys
        append_to_staging_area_def relpath_dir_def)
  have "p \<notin> fst ` set (index_file (unstage_file p (append_to_staging_area p d s)))"
    if "cwd s = directory s" "normalised (directory s)" "normalised p" "p \<noteq> []"
    using key relpath_dir_at_top [OF that] by simp
  then show ?thesis
    by (simp add: unstage_file_def Let_def print_def dict_del_keys dict_set_keys
        append_to_staging_area_def relpath_dir_def)
qed

theorem stage_then_unstage_witness:
  "cwd repo_fresh = directory repo_fresh \<and> normalised (directory repo_fresh)
   \<and> normalised [''a.txt''] \<and> [''a.txt''] \<noteq> []
   \<and> [''a.txt''] \<notin> fst ` set (index_file
         (unstage_file [''a.txt''] (append_to_staging_area [''a.txt''] ''sha:v1'' repo_fresh)))
   \<and> printed (unstage_file [''a.txt''] (append_to_staging_area [''a.txt''] ''sha:v1'' repo_fresh))
       = [Unstaged [''a.txt'']]
   \<and> printed (unstage_file [''a.txt''] repo_fresh) = [NotInStagingArea [''a.txt'']]"
proof -
  have top: "cwd repo_fresh = directory repo_fresh \<and> normalised (directory repo_fresh)
      \<and> normalised [''a.txt''] \<and> [''a.txt''] \<noteq> []"
    by (simp add: repo_fresh_def repo_empty_def normalised_def)
  have none: "printed repo_fresh = [] \<and> index_file repo_fresh = []"
    by (simp add: repo_fresh_def repo_empty_def)
  show ?thesis
    using stage_then_unstage [of repo_fresh "[''a.txt'']" "''sha:v1''"] top none by simp
qed

subsection \<open>Commits\<close>

text \<open>
  Claim C5. \<^verbatim>\<open>commit\<close> returns normally; afterwards the stored index is empty, the HEAD
  file holds the digest of the serialised commit record (made of the time, the
  message, the index as it was and the previous head), and the object directory
  holds that record under this digest.
\<close>

theorem commit_clears_index_and_advances_head:
  "fst (commit e now msg s) = None
   \<and> index_file (snd (commit e now msg s)) = []
   \<and> head_file (snd (commit e now msg s))
       = generate_hash e (json_dumps e \<lparr>timestamp = now, message = msg,
           files = index_file s, parent = get_current_head s\<rparr>)
   \<and> objects (snd (commit e now msg s)) (head_file (snd (commit e now msg s)))
       = Some (json_dumps e \<lparr>timestamp = now, message = msg,
           files = index_file s, parent = get_current_head s\<rparr>)"
  by (simp add: commit_def file_object_truth_def Let_def update_head_def print_def)

text \<open>
  Claim C1. On the empty index \<^verbatim>\<open>commit\<close> does not fail: the test that guards the message
  \<^verbatim>\<open>No changes to commit\<close> is on the file object, not on the index read from it. In the
  new repository, whose index and HEAD are empty, \<^verbatim>\<open>commit\<close> writes a commit record
  with no files, moves HEAD to its digest and prints that the commit was created.
\<close>

theorem commit_on_empty_index:
  "index_file repo_empty = []
   \<and> commit env0 ''2024-01-01T10:00:00'' ''empty'' repo_empty
       = (None, repo_empty\<lparr>objects := [''sha:{empty}'' \<mapsto> ''{empty}''],
            head_file := ''sha:{empty}'', printed := [CommitCreated ''sha:{empty}'']\<rparr>)
   \<and> head_file repo_empty \<noteq> ''sha:{empty}''"
  by (simp add: commit_def file_object_truth_def Let_def update_head_def print_def
      repo_empty_def env0_def generate_hash_def get_current_head_def strip_def)

subsection \<open>Evaluating the examples\<close>

lemmas path_eval = relpath_cwd_def relpath_dir_def rel_list_def abspath_def normpath_def isabs_def
  read_file_def set_add_def Let_def

lemmas scan_eval = get_staged_files_def get_tracked_files_def committed_files_def
  get_untracked_files_def os_walk_def get_current_head_def get_commit_data_def strip_def
  isspace_def generate_hash_def

lemmas fixture_eval = env0_def repo_empty_def repo_fresh_def repo_drift_def repo_sub_def
  repo_sub_twin_def repo_AB_def repo_mixed_def
  repo_known_def repo_broken_def commit_A_def commit_B_def

lemma repo_drift_staged: "get_staged_files repo_drift = [[''a.txt'']]"
  by (simp add: path_eval scan_eval fixture_eval)

lemma repo_drift_tracked:
  "get_tracked_files env0 repo_drift [[''a.txt'']] = Inr ([], [[''a.txt'']])"
  by (simp add: path_eval scan_eval fixture_eval)

subsection \<open>The object store\<close>

lemma read_file_frame:
  "worktree s' = worktree s \<Longrightarrow> cwd s' = cwd s \<Longrightarrow> read_file s' p = read_file s p"
  by (simp add: read_file_def)

text \<open>
  Claim C6. The source stores content in \<^verbatim>\<open>add_file\<close>: it reads the text \<open>C\<close> of a file,
  and writes it to the object directory under \<open>generate_hash C\<close>. Reading the object
  of that digest with \<^verbatim>\<open>get_file_content\<close> then returns \<open>C\<close>. Storing the same text
  again, from the same file or from another file \<open>q\<close> with the same text, leaves
  the object directory as it was.
\<close>

theorem object_roundtrip:
  assumes "read_file s p = Inr C" and "read_file s q = Inr C"
  shows "fst (add_file e p s) = None
    \<and> get_file_content (snd (add_file e p s)) (generate_hash e C) = Inr C
    \<and> fst (add_file e q (snd (add_file e p s))) = None
    \<and> objects (snd (add_file e q (snd (add_file e p s)))) = objects (snd (add_file e p s))"
proof -
  let ?s1 = "snd (add_file e p s)"
  have s1: "add_file e p s = (None, print (AddedToStaging p)
      (append_to_staging_area p (generate_hash e C)
        (s\<lparr>objects := (objects s)(generate_hash e C \<mapsto> C)\<rparr>)))"
    using assms(1) by (simp add: add_file_def Let_def)
  have obj: "objects ?s1 = (objects s)(generate_hash e C \<mapsto> C)"
    by (simp add: s1 print_def append_to_staging_area_def)
  have "read_file ?s1 q = read_file s q"
    by (rule read_file_frame) (simp_all add: s1 print_def append_to_staging_area_def)
  then have rq: "read_file ?s1 q = Inr C" using assms(2) by simp
  have "objects (snd (add_file e q ?s1)) = (objects ?s1)(generate_hash e C \<mapsto> C)"
    using rq by (simp add: add_file_def Let_def print_def append_to_staging_area_def)
  then have twice: "objects (snd (add_file e q ?s1)) = objects ?s1"
    by (simp add: obj)
  have ok2: "fst (add_file e q ?s1) = None"
    using rq by (simp add: add_file_def Let_def)
  show ?thesis
    using twice ok2 by (simp add: s1 get_file_content_def print_def append_to_staging_area_def)
qed

theorem object_roundtrip_witness:
  "read_file repo_fresh [''a.txt''] = Inr ''v1'' \<and> read_file repo_fresh [''b.txt''] = Inr ''v1''
   \<and> get_file_content (snd (add_file env0 [''a.txt''] repo_fresh)) ''sha:v1'' = Inr ''v1''
   \<and> objects (snd (add_file env0 [''b.txt''] (snd (add_file env0 [''a.txt''] repo_fresh))))
       = objects (snd (add_file env0 [''a.txt''] repo_fresh))"
proof -
  have a: "read_file repo_fresh [''a.txt''] = Inr ''v1''"
    by (simp add: path_eval fixture_eval)
  have b: "read_file repo_fresh [''b.txt''] = Inr ''v1''"
    by (simp add: path_eval fixture_eval)
  have h: "generate_hash env0 ''v1'' = ''sha:v1''"
    by (simp add: generate_hash_def env0_def)
  show ?thesis
    using object_roundtrip [OF a b, of env0] a b by (simp add: h)
qed

subsection \<open>Adding\<close>

lemma add_scan_unmatched:
  assumes "p \<in> set paths" "p \<noteq> [''.'']"
    and "p \<notin> set staged" "p \<notin> set tracked" "p \<notin> set untracked"
  shows "\<exists>q. add_scan staged tracked untracked paths addAll = Inl q \<and> q \<in> set paths"
  using assms by (induction paths arbitrary: addAll) auto

text \<open>
  Claim C9, as the source has it. The path \<^verbatim>\<open>.\<close> is in no class, and \<^verbatim>\<open>add\<close> does not
  return at it: it stages every file with changes and every untracked file.
\<close>

theorem add_dot_stages_everything:
  "get_staged_files repo_fresh = []
   \<and> get_tracked_files env0 repo_fresh [] = Inr ([], [])
   \<and> get_untracked_files env0 repo_fresh [] [] = Inr [[''a.txt''], [''b.txt'']]
   \<and> add env0 [[''.'']] repo_fresh
       = (None, repo_fresh\<lparr>objects := [''sha:v1'' \<mapsto> ''v1''],
            index_file := [([''a.txt''], ''sha:v1''), ([''b.txt''], ''sha:v1'')],
            printed := [AddedToStaging [''a.txt''], AddedToStaging [''b.txt'']]\<rparr>)"
proof -
  have st: "get_staged_files repo_fresh = []"
    by (simp add: path_eval scan_eval fixture_eval)
  have tr: "get_tracked_files env0 repo_fresh [] = Inr ([], [])"
    by (simp add: path_eval scan_eval fixture_eval)
  have un: "get_untracked_files env0 repo_fresh [] [] = Inr [[''a.txt''], [''b.txt'']]"
    by (simp add: path_eval scan_eval fixture_eval)
  have "add env0 [[''.'']] repo_fresh = add_files env0 [[''a.txt''], [''b.txt'']] repo_fresh"
    by (simp add: add_def st tr un)
  also have "\<dots> = (None, repo_fresh\<lparr>objects := [''sha:v1'' \<mapsto> ''v1''],
            index_file := [([''a.txt''], ''sha:v1''), ([''b.txt''], ''sha:v1'')],
            printed := [AddedToStaging [''a.txt''], AddedToStaging [''b.txt'']]\<rparr>)"
    by (simp add: add_file_def append_to_staging_area_def print_def path_eval generate_hash_def
        fixture_eval)
  finally show ?thesis
    by (simp add: st tr un)
qed

text \<open>
  Claim C9, amended. When the classification of the working tree succeeds and some path of
  the list is neither \<^verbatim>\<open>.\<close> nor in the staged, the tracked or the untracked set,
  \<^verbatim>\<open>add\<close> returns from its first loop: it prints \<^verbatim>\<open>'q' did not match any files\<close> for a
  path \<open>q\<close> of the list and changes nothing else. No path is staged, whatever its
  place in the list: the index, the object directory and the working tree are as
  they were.
\<close>

theorem add_aborts_on_unmatched_path:
  assumes "get_tracked_files e s (get_staged_files s) = Inr (tracked, changed)"
    and "get_untracked_files e s (get_staged_files s) tracked = Inr untracked"
    and "p \<in> set paths" and "p \<noteq> [''.'']"
    and "p \<notin> set (get_staged_files s)" and "p \<notin> set tracked" and "p \<notin> set untracked"
  shows "\<exists>q. q \<in> set paths
    \<and> add e paths s = (None, s\<lparr>printed := printed s @ [DidNotMatch q]\<rparr>)"
proof -
  obtain q where "add_scan (get_staged_files s) tracked untracked paths False = Inl q"
      and "q \<in> set paths"
    using add_scan_unmatched [OF assms(3-7)] by blast
  then show ?thesis
    using assms(1,2) by (auto simp: add_def Let_def print_def)
qed

theorem add_aborts_witness:
  "add env0 [[''a.txt''], [''nope'']] repo_fresh
     = (None, repo_fresh\<lparr>printed := [DidNotMatch [''nope'']]\<rparr>)"
proof -
  have st: "get_staged_files repo_fresh = []"
    by (simp add: path_eval scan_eval fixture_eval)
  have tr: "get_tracked_files env0 repo_fresh (get_staged_files repo_fresh) = Inr ([], [])"
    by (simp add: path_eval scan_eval fixture_eval)
  have un: "get_untracked_files env0 repo_fresh (get_staged_files repo_fresh) []
      = Inr [[''a.txt''], [''b.txt'']]"
    by (simp add: path_eval scan_eval fixture_eval)
  have "\<exists>q. q \<in> set [[''a.txt''], [''nope'']]
      \<and> add env0 [[''a.txt''], [''nope'']] repo_fresh
          = (None, repo_fresh\<lparr>printed := printed repo_fresh @ [DidNotMatch q]\<rparr>)"
    by (rule add_aborts_on_unmatched_path [OF tr un, of "[''nope'']"]) (simp_all add: st)
  moreover have "add env0 [[''a.txt''], [''nope'']] repo_fresh
      = (None, print (DidNotMatch [''nope'']) repo_fresh)"
    using tr un by (simp add: add_def st)
  ultimately show ?thesis
    by (simp add: print_def fixture_eval)
qed

subsection \<open>Restoring\<close>

lemma restore_file_loop_no_match:
  "path \<notin> relpath_cwd s ` fst ` set committed \<Longrightarrow> restore_file_loop path committed s = (None, s)"
  by (induction committed) (auto simp: Let_def)

text \<open>Where HEAD names a commit whose files do not include the path,
  \<^verbatim>\<open>restore_file\<close> finds no file to restore and returns without a message.\<close>

lemma restore_file_silent:
  assumes "get_current_head s = Some h" and "objects s h = Some commit_text"
    and "json_loads e commit_text = Some c"
    and "path \<notin> relpath_cwd s ` fst ` set (files c)"
  shows "restore_file e path s = (None, s)"
  using assms
  by (cases "commit_text = []")
    (simp_all add: restore_file_def get_commit_data_def restore_file_loop_no_match)

text \<open>
  Claim C10. In a repository with no commit, a file that was staged and then edited
  is in the index, in no commit, and classified as tracked with changes. For it
  \<^verbatim>\<open>restore\<close> prints \<^verbatim>\<open>No commit found\<close>, goes on, and \<^verbatim>\<open>restore_file\<close> passes the head
  \<^verbatim>\<open>None\<close> to \<^verbatim>\<open>get_commit_data\<close>, which raises TypeError: the call does not end as a
  silent no-op.
\<close>

theorem restore_drifted_without_commit:
  "get_current_head repo_drift = None
   \<and> map_of (index_file repo_drift) [''a.txt''] = Some ''sha:v1''
   \<and> get_tracked_files env0 repo_drift (get_staged_files repo_drift) = Inr ([], [[''a.txt'']])
   \<and> restore env0 [[''a.txt'']] repo_drift
       = (Some TypeError, repo_drift\<lparr>printed := [NoCommitFound]\<rparr>)"
proof -
  have h: "get_current_head repo_drift = None"
    by (simp add: scan_eval fixture_eval)
  have h': "get_current_head (print NoCommitFound repo_drift) = None"
    by (simp add: scan_eval fixture_eval print_def)
  have st: "get_staged_files (print NoCommitFound repo_drift) = [[''a.txt'']]"
    by (simp add: path_eval scan_eval fixture_eval print_def)
  have tr: "get_tracked_files env0 (print NoCommitFound repo_drift) [[''a.txt'']]
      = Inr ([], [[''a.txt'']])"
    by (simp add: path_eval scan_eval fixture_eval print_def)
  have rf: "restore_file env0 [''a.txt''] (print NoCommitFound repo_drift)
      = (Some TypeError, print NoCommitFound repo_drift)"
    by (simp add: restore_file_def h' get_commit_data_def)
  have "restore env0 [[''a.txt'']] repo_drift = (Some TypeError, print NoCommitFound repo_drift)"
    by (simp add: restore_def h st tr rf)
  then show ?thesis
    by (simp add: h repo_drift_staged repo_drift_tracked) (simp add: fixture_eval print_def)
qed

subsection \<open>The scan for untracked files\<close>

text \<open>
  Claim C2. The scan opens each file by its bare name, \<^verbatim>\<open>open(file)\<close>, which the
  system resolves in the working directory of the process, not in the directory the
  file was found in. With the process at the top of the repository and the new file
  \<^verbatim>\<open>sub/b.txt\<close>, whose digest has no object: if there is no \<^verbatim>\<open>b.txt\<close> at the top the
  scan raises FileNotFoundError; if there is one whose text was stored before, the
  scan takes the digest of that text and does not report \<^verbatim>\<open>sub/b.txt\<close> as untracked.
\<close>

theorem untracked_scan_reads_bare_name:
  "read_file repo_sub [''sub'', ''b.txt''] = Inr ''new''
   \<and> objects repo_sub (generate_hash env0 ''new'') = None
   \<and> get_untracked_files env0 repo_sub [] [] = Inl (FileNotFoundError [''b.txt''])
   \<and> read_file repo_sub_twin [''sub'', ''b.txt''] = Inr ''new''
   \<and> objects repo_sub_twin (generate_hash env0 ''new'') = None
   \<and> get_untracked_files env0 repo_sub_twin [] [] = Inr []"
  by (simp add: path_eval scan_eval fixture_eval)

subsection \<open>The classification of the working tree\<close>

lemma set_set_add [simp]: "set (set_add x xs) = insert x (set xs)"
  by (auto simp: set_add_def)











subsection \<open>The report of differences\<close>

lemma get_file_content_print [simp]:
  "get_file_content (print m s) h = get_file_content s h"
  by (simp add: get_file_content_def print_def)







subsection \<open>The log\<close>

lemma log_loop_end [simp]: "log_loop e None s = Some (None, s)"
  by (subst log_loop.simps) simp










end
